theory Spec2Isabelle
  imports Main "HOL-Library.Word"
begin

section \<open>JavaScript values\<close>

text \<open>
  A JavaScript string is a sequence of UTF-16 code units; \<open>length\<close>, \<open>trim\<close> and the
  regular expression of \<open>app.js\<close> all work on code units. \<open>js\<close> embeds an ASCII literal.
\<close>

type_synonym jschar = "16 word"
type_synonym jsstring = "jschar list"

definition js :: "string \<Rightarrow> jsstring" where
  "js s = map (\<lambda>c. of_nat (of_char c)) s"

text \<open>
  The values that reach the code as settings fields and as fields of the parsed response
  body. \<open>JSNumber\<close> carries integral numbers; \<open>JSNaN\<close> is what \<open>parseInt\<close> yields on a
  non-numeric field.
\<close>

datatype jsval =
    JSUndefined
  | JSNull
  | JSBool bool
  | JSNumber int
  | JSNaN
  | JSString jsstring

text \<open>ToBoolean, as used by \<open>!x\<close> and \<open>x || y\<close>.\<close>

fun truthy :: "jsval \<Rightarrow> bool" where
  "truthy JSUndefined = False"
| "truthy JSNull = False"
| "truthy (JSBool b) = b"
| "truthy (JSNumber n) = (n \<noteq> 0)"
| "truthy JSNaN = False"
| "truthy (JSString s) = (s \<noteq> [])"

text \<open>
  Values thrown or used as a rejection reason: an Error object (TypeError of \<open>fetch\<close>,
  SyntaxError of \<open>response.json()\<close>, DOMException of an IndexedDB request) with its
  message, the bare string \<open>openDB\<close> rejects with, and the TypeError of reading a
  property of \<open>null\<close>, whose message the engine chooses.
\<close>

datatype exn =
    ErrorObject jsstring
  | ThrownString jsstring
  | NullPropertyTypeError

text \<open>\<open>String.prototype.trim\<close>: WhiteSpace and LineTerminator code points are removed at both ends.\<close>

definition isWhiteSpace :: "jschar \<Rightarrow> bool" where
  "isWhiteSpace c \<longleftrightarrow>
     c \<in> set [0x0009, 0x000A, 0x000B, 0x000C, 0x000D, 0x0020, 0x00A0, 0x1680,
              0x2028, 0x2029, 0x202F, 0x205F, 0x3000, 0xFEFF]
     \<or> (0x2000 \<le> c \<and> c \<le> 0x200A)"

definition trim :: "jsstring \<Rightarrow> jsstring" where
  "trim s = rev (dropWhile isWhiteSpace (rev (dropWhile isWhiteSpace s)))"

text \<open>\<open>/^\d+$/.test(s)\<close>: without the multiline flag, one or more of \<open>0\<close>..\<open>9\<close> and nothing else.\<close>

definition isDigit :: "jschar \<Rightarrow> bool" where
  "isDigit c \<longleftrightarrow> 0x30 \<le> c \<and> c \<le> 0x39"

definition digits_test :: "jsstring \<Rightarrow> bool" where
  "digits_test s \<longleftrightarrow> s \<noteq> [] \<and> list_all isDigit s"

text \<open>\<open>Number.prototype.toString\<close> on an integral number: decimal digits, a minus sign when negative.\<close>

function decimal_digits :: "nat \<Rightarrow> jsstring" where
  "decimal_digits n =
     (if n < 10 then [of_nat (48 + n)]
      else decimal_digits (n div 10) @ [of_nat (48 + n mod 10)])"
  by pat_completeness auto
termination
  by (relation "measure id") auto

definition Number_toString :: "int \<Rightarrow> jsstring" where
  "Number_toString n =
     (if n < 0 then 0x2D # decimal_digits (nat (- n)) else decimal_digits (nat n))"

section \<open>Application state (\<open>app.js\<close>)\<close>

text \<open>The constants of lines 24 to 28 that are used as localStorage keys.\<close>

definition SETTINGS_KEY :: jsstring where
  "SETTINGS_KEY = js ''pointCardSettings''"

definition LAST_SYNC_KEY :: jsstring where
  "LAST_SYNC_KEY = js ''lastSyncTime''"

definition DEVICE_ID_KEY :: jsstring where
  "DEVICE_ID_KEY = js ''deviceId''"

text \<open>The global \<open>settings\<close> object; a field that was never set reads as \<open>undefined\<close>.\<close>

record settings_obj =
  appsScriptUrl :: jsval
  storeId :: jsval
  pointValue :: jsval

text \<open>
  A record of the object store \<open>pointQueue\<close> (key path \<open>id\<close>, auto-increment), and the
  store itself: its records in key order, which is insertion order, and its key
  generator. A database that does not exist yet is the store \<open>fresh_store\<close>, since
  \<open>openDB\<close> creates it on first use.
\<close>

record entry =
  entry_id :: nat
  memberId :: jsstring
  timestamp :: jsstring
  entry_deviceId :: jsstring

record object_store =
  records :: "entry list"
  keyGenerator :: nat

definition fresh_store :: object_store where
  "fresh_store = \<lparr>records = [], keyGenerator = 1\<rparr>"

text \<open>
  The text shown in \<open>currentStatusSpan\<close>. The literals of the source are Japanese
  sentences; each constructor stands for one of them, with the values the template
  interpolates. The line numbers are those of \<open>app.js\<close>.
\<close>

datatype status_text =
    InitialText                \<comment> \<open>whatever the markup shows before the first update\<close>
  | ConfigIncompleteText       \<comment> \<open>line 139\<close>
  | PointAddedText jsstring    \<comment> \<open>line 147, with \<open>memberId\<close>\<close>
  | InvalidMemberText jsstring \<comment> \<open>line 151, with \<open>memberId\<close>\<close>
  | SyncingText                \<comment> \<open>line 183\<close>
  | NothingToSyncText          \<comment> \<open>line 189\<close>
  | SyncSucceededText jsval    \<comment> \<open>line 219, with \<open>result.message\<close>\<close>
  | SyncFailedText "jsval option"
      \<comment> \<open>line 239, with \<open>result.message\<close>, or \<open>None\<close> for the literal "unknown error"\<close>
  | SyncErrorText exn          \<comment> \<open>line 244, with the \<open>message\<close> of the caught error\<close>

text \<open>What the sync POSTs carry (lines 196 to 201 and 223 to 226).\<close>

record payload =
  payload_storeId :: jsval
  payload_pointValue :: jsval
  payload_data :: "(jsstring \<times> jsstring) list"
  payload_deviceId :: jsstring

datatype request_body =
    SyncBatch payload
  | UpdateLastSyncTime jsstring

datatype console_entry =
    ConsoleError exn        \<comment> \<open>line 243\<close>
  | ConsoleLogLastSync      \<comment> \<open>line 233\<close>
  | ConsoleWarn exn         \<comment> \<open>line 235\<close>

text \<open>
  Everything the handlers read or write: the globals \<open>settings\<close> and \<open>deviceId\<close>, the
  object store, localStorage, the input field, the status span (text and class name),
  the sync button, and the effects on the outside in the order they happen: alerts,
  POST requests (URL and body) and console lines.
\<close>

record app_state =
  settings :: settings_obj
  deviceId :: jsstring
  indexedDB :: object_store
  localStorage :: "jsstring \<rightharpoonup> jsstring"
  scanInput_value :: jsstring
  currentStatus_text :: status_text
  currentStatus_className :: jsstring
  syncDataButton_disabled :: bool
  alerts :: nat
  network :: "(jsval \<times> request_body) list"
  console :: "console_entry list"

section \<open>Device identity (lines 31 to 34)\<close>

text \<open>
  \<open>localStorage.getItem(DEVICE_ID_KEY) || crypto.randomUUID()\<close>, then \<open>setItem\<close>.
  \<open>uuid\<close> is the value \<open>crypto.randomUUID()\<close> would return; a stored empty string is
  falsy and is replaced like an absent one.
\<close>

definition deviceId_getOrCreate ::
    "jsstring \<Rightarrow> (jsstring \<rightharpoonup> jsstring) \<Rightarrow> jsstring \<times> (jsstring \<rightharpoonup> jsstring)" where
  "deviceId_getOrCreate uuid ls =
     (let d = (case ls DEVICE_ID_KEY of
                 None \<Rightarrow> uuid
               | Some v \<Rightarrow> if v \<noteq> [] then v else uuid)
      in (d, ls(DEVICE_ID_KEY \<mapsto> d)))"

section \<open>IndexedDB helpers (lines 37 to 91)\<close>

text \<open>
  How one use of the database goes, as the environment decides it: \<open>indexedDB.open\<close> may
  fire \<open>onerror\<close>, and the request on the store may fire \<open>onerror\<close> with an error.
  The helpers settle on the request's \<open>onsuccess\<close> or \<open>onerror\<close>; a request that
  succeeded is taken to have taken effect, that is, its transaction commits.
\<close>

record idb_outcome =
  open_fails :: bool
  request_error :: "exn option"

text \<open>
  \<open>openDB\<close>, lines 37 to 57. The object store is created on first use (see
  \<open>fresh_store\<close>); the \<open>console.error\<close> of line 53 is not recorded.
\<close>

definition openDB :: "idb_outcome \<Rightarrow> exn + unit" where
  "openDB io = (if open_fails io then Inl (ThrownString (js ''IndexedDB error'')) else Inr ())"

text \<open>\<open>store.add(entry)\<close> with key path \<open>id\<close> and \<open>autoIncrement\<close>.\<close>

definition store_add :: "object_store \<Rightarrow> jsstring \<Rightarrow> jsstring \<Rightarrow> jsstring \<Rightarrow> object_store" where
  "store_add st m t d =
     \<lparr>records = records st @
        [\<lparr>entry_id = keyGenerator st, memberId = m, timestamp = t, entry_deviceId = d\<rparr>],
      keyGenerator = keyGenerator st + 1\<rparr>"

text \<open>\<open>store.clear()\<close> removes every record and leaves the key generator alone.\<close>

definition store_clear :: "object_store \<Rightarrow> object_store" where
  "store_clear st = st\<lparr>records := []\<rparr>"

text \<open>\<open>now\<close> is what \<open>new Date().toISOString()\<close> returns.\<close>

definition addEntry ::
    "idb_outcome \<Rightarrow> jsstring \<Rightarrow> jsstring \<Rightarrow> app_state \<Rightarrow> (exn + unit) \<times> app_state" where
  "addEntry io now m s =
     (case openDB io of
        Inl e \<Rightarrow> (Inl e, s)
      | Inr _ \<Rightarrow>
          (case request_error io of
             Some e \<Rightarrow> (Inl e, s)
           | None \<Rightarrow> (Inr (), s\<lparr>indexedDB := store_add (indexedDB s) m now (deviceId s)\<rparr>)))"

definition getAllEntries :: "idb_outcome \<Rightarrow> app_state \<Rightarrow> exn + entry list" where
  "getAllEntries io s =
     (case openDB io of
        Inl e \<Rightarrow> Inl e
      | Inr _ \<Rightarrow>
          (case request_error io of
             Some e \<Rightarrow> Inl e
           | None \<Rightarrow> Inr (records (indexedDB s))))"

definition clearEntries :: "idb_outcome \<Rightarrow> app_state \<Rightarrow> (exn + unit) \<times> app_state" where
  "clearEntries io s =
     (case openDB io of
        Inl e \<Rightarrow> (Inl e, s)
      | Inr _ \<Rightarrow>
          (case request_error io of
             Some e \<Rightarrow> (Inl e, s)
           | None \<Rightarrow> (Inr (), s\<lparr>indexedDB := store_clear (indexedDB s)\<rparr>)))"

section \<open>Scanner input (lines 130 to 158)\<close>

text \<open>
  The \<open>keypress\<close> listener of the input field. The environment gives the outcome of the
  one database use and the clock reading. The result is how the listener's promise
  settles (\<open>None\<close>: fulfilled; \<open>Some e\<close>: rejected with \<open>e\<close>, which nothing catches) and
  the state it leaves. \<open>updateQueueCount\<close> (which is not awaited), \<open>displayScanResult\<close>
  and the timers only write labels of the page and are left out, as are the focus calls.
\<close>

record scan_env =
  scan_idb :: idb_outcome
  scan_clock :: jsstring

definition scanInput_keypress ::
    "scan_env \<Rightarrow> jsstring \<Rightarrow> app_state \<Rightarrow> exn option \<times> app_state" where
  "scanInput_keypress env key s =
     (if key = js ''Enter'' then
        (let m = trim (scanInput_value s);
             s1 = s\<lparr>scanInput_value := []\<rparr>
         in if \<not> truthy (appsScriptUrl (settings s1)) \<or> \<not> truthy (storeId (settings s1))
               \<or> \<not> truthy (pointValue (settings s1))
            then (None, s1\<lparr>alerts := alerts s1 + 1,
                            currentStatus_text := ConfigIncompleteText,
                            currentStatus_className := js ''error''\<rparr>)
            else if length m = 14 \<and> digits_test m
            then (case addEntry (scan_idb env) (scan_clock env) m s1 of
                    (Inl e, s2) \<Rightarrow> (Some e, s2)
                  | (Inr _, s2) \<Rightarrow>
                      (None, s2\<lparr>currentStatus_text := PointAddedText m,
                                 currentStatus_className := js ''success''\<rparr>))
            else (None, s1\<lparr>currentStatus_text := InvalidMemberText m,
                            currentStatus_className := js ''error''\<rparr>))
      else (None, s))"

text \<open>
  The operation the specification calls \<open>submitScan\<close>: the scanner has typed \<open>raw\<close> into
  the field and sends the Enter key.
\<close>

definition submitScan :: "scan_env \<Rightarrow> jsstring \<Rightarrow> app_state \<Rightarrow> exn option \<times> app_state" where
  "submitScan env raw s = scanInput_keypress env (js ''Enter'') (s\<lparr>scanInput_value := raw\<rparr>)"

section \<open>Synchronisation (lines 182 to 250)\<close>

text \<open>
  What \<open>fetch\<close> resolves with, as far as the code looks at it: the flag \<open>response.ok\<close>
  and what \<open>response.json()\<close> settles to, which is a rejection when the body is not
  JSON, \<open>null\<close>, or a value whose properties \<open>status\<close> and \<open>message\<close> are read (both
  \<open>undefined\<close> when the value is not an object or lacks them).
\<close>

datatype json_result =
    JsonRejected exn
  | JsonNull
  | JsonValue jsval jsval

record response =
  response_ok :: bool
  response_json :: json_result

text \<open>
  The environment of one run of \<open>syncData\<close>, in the order the code consults it: the
  database use of \<open>getAllEntries\<close>, the settlement of the first \<open>fetch\<close> (\<open>Inl\<close>: it
  rejects), the database use of \<open>clearEntries\<close>, the clock (\<open>new Date().getTime()\<close>) and
  the settlement of the second \<open>fetch\<close>.
\<close>

record sync_env =
  sync_read :: idb_outcome
  sync_fetch :: "exn + response"
  sync_clear :: idb_outcome
  sync_now :: int
  sync_fetch2 :: "exn + response"

text \<open>Lines 196 to 201.\<close>

definition build_payload :: "entry list \<Rightarrow> app_state \<Rightarrow> payload" where
  "build_payload entries s =
     \<lparr>payload_storeId = storeId (settings s),
      payload_pointValue = pointValue (settings s),
      payload_data = map (\<lambda>e. (memberId e, timestamp e)) entries,
      payload_deviceId = deviceId s\<rparr>"

text \<open>
  Lines 222 to 236: the second POST, inside its own \<open>try\<close>; its response is not looked
  at, its rejection is caught and written to the console.
\<close>

definition notify_lastSync :: "sync_env \<Rightarrow> app_state \<Rightarrow> app_state" where
  "notify_lastSync env s =
     (let s1 = s\<lparr>network := network s @
                   [(appsScriptUrl (settings s), UpdateLastSyncTime (deviceId s))]\<rparr>
      in case sync_fetch2 env of
           Inl e \<Rightarrow> s1\<lparr>console := console s1 @ [ConsoleWarn e]\<rparr>
         | Inr _ \<Rightarrow> s1\<lparr>console := console s1 @ [ConsoleLogLastSync]\<rparr>)"

text \<open>
  The body of the \<open>try\<close> block, lines 196 to 241. \<open>Inl e\<close>: the block threw \<open>e\<close>, with the
  state at that moment. Reading \<open>status\<close> or \<open>message\<close> of \<open>null\<close> throws on either side
  of the \<open>if\<close>, before anything is written.
  The label writes of lines 215 and 218 (\<open>updateQueueCount\<close>, which is not awaited,
  and \<open>lastSyncTimeSpan\<close>) are left out.
\<close>

definition sync_try :: "sync_env \<Rightarrow> entry list \<Rightarrow> app_state \<Rightarrow> (exn + unit) \<times> app_state" where
  "sync_try env entries s =
     (let s1 = s\<lparr>network := network s @
                   [(appsScriptUrl (settings s), SyncBatch (build_payload entries s))]\<rparr>
      in case sync_fetch env of
           Inl e \<Rightarrow> (Inl e, s1)
         | Inr resp \<Rightarrow>
             (case response_json resp of
                JsonRejected e \<Rightarrow> (Inl e, s1)
              | JsonNull \<Rightarrow> (Inl NullPropertyTypeError, s1)
              | JsonValue status message \<Rightarrow>
                  if response_ok resp \<and> status = JSNumber 200
                  then (case clearEntries (sync_clear env) s1 of
                          (Inl e, s2) \<Rightarrow> (Inl e, s2)
                        | (Inr _, s2) \<Rightarrow>
                            (Inr (),
                             notify_lastSync env
                               (s2\<lparr>localStorage := (localStorage s2)
                                      (LAST_SYNC_KEY \<mapsto> Number_toString (sync_now env)),
                                    currentStatus_text := SyncSucceededText message,
                                    currentStatus_className := js ''success''\<rparr>)))
                  else (Inr (),
                        s1\<lparr>currentStatus_text :=
                             SyncFailedText (if truthy message then Some message else None),
                           currentStatus_className := js ''error''\<rparr>)))"

text \<open>The \<open>catch\<close> block, lines 242 to 245, and the \<open>finally\<close> block, lines 246 to 249.\<close>

definition sync_catch :: "exn \<Rightarrow> app_state \<Rightarrow> app_state" where
  "sync_catch e s =
     s\<lparr>console := console s @ [ConsoleError e],
       currentStatus_text := SyncErrorText e,
       currentStatus_className := js ''error''\<rparr>"

definition sync_finally :: "app_state \<Rightarrow> app_state" where
  "sync_finally s = s\<lparr>syncDataButton_disabled := False\<rparr>"

text \<open>
  \<open>syncData\<close>. \<open>getAllEntries\<close> is awaited before the \<open>try\<close>: when it rejects, so does
  \<open>syncData\<close>, and neither \<open>catch\<close> nor \<open>finally\<close> runs.
\<close>

definition syncData :: "sync_env \<Rightarrow> app_state \<Rightarrow> exn option \<times> app_state" where
  "syncData env s =
     (let s1 = s\<lparr>currentStatus_text := SyncingText,
                  currentStatus_className := js ''info'',
                  syncDataButton_disabled := True\<rparr>
      in case getAllEntries (sync_read env) s1 of
           Inl e \<Rightarrow> (Some e, s1)
         | Inr entries \<Rightarrow>
             if length entries = 0
             then (None, s1\<lparr>currentStatus_text := NothingToSyncText,
                             currentStatus_className := js ''info'',
                             syncDataButton_disabled := False\<rparr>)
             else (case sync_try env entries s1 of
                     (Inl e, s2) \<Rightarrow> (None, sync_finally (sync_catch e s2))
                   | (Inr _, s2) \<Rightarrow> (None, sync_finally s2)))"

section \<open>Device reset (lines 253 to 257)\<close>

text \<open>
  The statements of \<open>resetDevice\<close> inside its \<open>if\<close>: localStorage is cleared, the
  database deleted, and the global \<open>deviceId\<close> set to a new \<open>crypto.randomUUID()\<close>,
  here \<open>uuid\<close>. The deletion is taken to have happened when the function is left; the
  browser carries it out once the page's connections to the database are closed.
\<close>

definition resetDevice_begin :: "jsstring \<Rightarrow> app_state \<Rightarrow> app_state" where
  "resetDevice_begin uuid s =
     s\<lparr>localStorage := Map.empty, indexedDB := fresh_store, deviceId := uuid\<rparr>"

text \<open>
  \<open>resetDevice\<close> as far as the source file has it (the file ends after line 257, inside
  the \<open>if\<close>). \<open>confirmed\<close> is the answer to the \<open>confirm\<close> dialog of line 254.
\<close>

definition resetDevice :: "bool \<Rightarrow> jsstring \<Rightarrow> app_state \<Rightarrow> app_state" where
  "resetDevice confirmed uuid s = (if confirmed then resetDevice_begin uuid s else s)"

text \<open>
  Modelled from the spec: a further statement of \<open>resetDevice\<close>, which the source file
  does not have because it ends inside the function. The specification says of reset
  that it "discards the persisted identifier and generates + persists a new one"; the
  statement is the persisting of the new \<open>deviceId\<close>.
\<close>

definition resetDevice_persist :: "app_state \<Rightarrow> app_state" where
  "resetDevice_persist s = s\<lparr>localStorage := (localStorage s)(DEVICE_ID_KEY \<mapsto> deviceId s)\<rparr>"

section \<open>Service worker (\<open>sw.js\<close>)\<close>

text \<open>
  A cache maps request URLs to stored responses; the cache storage holds the named
  caches in the order they were created. What the worker hands to \<open>fetch\<close> is recorded
  in \<open>sw_network\<close>. Responses are kept abstract.
\<close>

record 'r sw_state =
  caches :: "(jsstring \<times> (jsstring \<times> 'r) list) list"
  sw_network :: "jsstring list"

text \<open>\<open>caches.match(request)\<close>: the first cache, in creation order, that has an entry for the request.\<close>

fun caches_match :: "(jsstring \<times> (jsstring \<times> 'r) list) list \<Rightarrow> jsstring \<Rightarrow> 'r option" where
  "caches_match [] req = None"
| "caches_match ((name, c) # cs) req =
     (case map_of c req of Some r \<Rightarrow> Some r | None \<Rightarrow> caches_match cs req)"

text \<open>
  The \<open>fetch\<close> listener, lines 31 to 43. \<open>net\<close> is how \<open>fetch(event.request)\<close> settles;
  the result is what \<open>respondWith\<close> receives.
\<close>

definition fetch_listener :: "exn + 'r \<Rightarrow> jsstring \<Rightarrow> 'r sw_state \<Rightarrow> (exn + 'r) \<times> 'r sw_state" where
  "fetch_listener net req w =
     (case caches_match (caches w) req of
        Some r \<Rightarrow> (Inr r, w)
      | None \<Rightarrow> (net, w\<lparr>sw_network := sw_network w @ [req]\<rparr>))"

section \<open>Conditions the properties are stated with\<close>

text \<open>
  The condition under which line 214 is reached: the first \<open>fetch\<close> resolved, the body
  parsed to a value other than \<open>null\<close>, and the test of line 213 holds.
\<close>

definition remote_accepts :: "sync_env \<Rightarrow> bool" where
  "remote_accepts env =
     (case sync_fetch env of
        Inl _ \<Rightarrow> False
      | Inr resp \<Rightarrow>
          (case response_json resp of
             JsonValue status _ \<Rightarrow> response_ok resp \<and> status = JSNumber 200
           | _ \<Rightarrow> False))"

text \<open>The negation of the test of line 137: all three settings are truthy.\<close>

definition configured :: "app_state \<Rightarrow> bool" where
  "configured s \<longleftrightarrow>
     truthy (appsScriptUrl (settings s)) \<and> truthy (storeId (settings s))
     \<and> truthy (pointValue (settings s))"

section \<open>Example data\<close>

text \<open>
  A configured device with two scans queued, the same device with an empty queue, and
  a device whose \<open>settings\<close> object is still \<open>{}\<close>.
\<close>

definition example_settings :: settings_obj where
  "example_settings =
     \<lparr>appsScriptUrl = JSString (js ''https://script.example/macros/s/abc/exec''),
      storeId = JSString (js ''S01''),
      pointValue = JSNumber 10\<rparr>"

definition example_records :: "entry list" where
  "example_records =
     [\<lparr>entry_id = 1, memberId = js ''12345678901234'',
       timestamp = js ''2025-04-01T09:00:00.000Z'', entry_deviceId = js ''device-a''\<rparr>,
      \<lparr>entry_id = 2, memberId = js ''00000000000042'',
       timestamp = js ''2025-04-01T09:05:00.000Z'', entry_deviceId = js ''device-a''\<rparr>]"

definition example_state :: app_state where
  "example_state =
     \<lparr>settings = example_settings,
      deviceId = js ''device-a'',
      indexedDB = \<lparr>records = example_records, keyGenerator = 3\<rparr>,
      localStorage = [DEVICE_ID_KEY \<mapsto> js ''device-a''],
      scanInput_value = [],
      currentStatus_text = InitialText,
      currentStatus_className = [],
      syncDataButton_disabled = False,
      alerts = 0,
      network = [],
      console = []\<rparr>"

text \<open>The same device while the status span shows the success line of the second scan.\<close>

definition example_scanned_state :: app_state where
  "example_scanned_state =
     example_state\<lparr>currentStatus_text := PointAddedText (js ''00000000000042''),
                   currentStatus_className := js ''success''\<rparr>"

definition example_empty_state :: app_state where
  "example_empty_state = example_state\<lparr>indexedDB := fresh_store\<rparr>"

definition example_unconfigured_state :: app_state where
  "example_unconfigured_state =
     example_empty_state
       \<lparr>settings := \<lparr>appsScriptUrl = JSUndefined, storeId = JSUndefined,
                     pointValue = JSUndefined\<rparr>\<rparr>"

text \<open>A database use that succeeds, and one whose request fails.\<close>

definition idb_resolves :: idb_outcome where
  "idb_resolves = \<lparr>open_fails = False, request_error = None\<rparr>"

definition idb_rejects :: idb_outcome where
  "idb_rejects =
     \<lparr>open_fails = False, request_error = Some (ErrorObject (js ''QuotaExceededError''))\<rparr>"

text \<open>
  The response \<open>{status: 200, message: "ok"}\<close> with HTTP 200, and a run of \<open>syncData\<close> in
  which everything succeeds.
\<close>

definition example_accepting :: response where
  "example_accepting =
     \<lparr>response_ok = True,
      response_json = JsonValue (JSNumber 200) (JSString (js ''ok''))\<rparr>"

definition example_sync_env :: sync_env where
  "example_sync_env =
     \<lparr>sync_read = idb_resolves,
      sync_fetch = Inr example_accepting,
      sync_clear = idb_resolves,
      sync_now = 1743498000000,
      sync_fetch2 = Inr example_accepting\<rparr>"

definition example_scan_env :: scan_env where
  "example_scan_env = \<lparr>scan_idb = idb_resolves, scan_clock = js ''2025-04-01T09:10:00.000Z''\<rparr>"

text \<open>A service worker whose one cache holds the application shell.\<close>

definition example_worker :: "jsstring sw_state" where
  "example_worker =
     \<lparr>caches = [(js ''kosuge-point-v1'',
                  [(js ''index.html'', js ''<html>''), (js ''app.js'', js ''// app'')])],
      sw_network = []\<rparr>"

section \<open>Synchronisation: auxiliary facts\<close>

lemmas example_defs =
  example_state_def example_empty_state_def example_unconfigured_state_def
  example_settings_def example_records_def example_sync_env_def example_scan_env_def
  example_accepting_def idb_resolves_def idb_rejects_def fresh_store_def

lemma getAllEntries_records:
  "getAllEntries io s = Inr es \<Longrightarrow> es = records (indexedDB s)"
  by (auto simp: getAllEntries_def split: sum.splits option.splits)

lemma syncData_empty:
  assumes "getAllEntries (sync_read env) s = Inr []"
  shows "syncData env s =
           (None, s\<lparr>currentStatus_text := NothingToSyncText,
                     currentStatus_className := js ''info'',
                     syncDataButton_disabled := False\<rparr>)"
  using assms by (simp add: syncData_def getAllEntries_def split: sum.splits option.splits)

lemma syncData_nonempty:
  assumes "getAllEntries (sync_read env) s = Inr es" and "es \<noteq> []"
  shows "syncData env s =
           (let s1 = s\<lparr>currentStatus_text := SyncingText,
                        currentStatus_className := js ''info'',
                        syncDataButton_disabled := True\<rparr>
            in case sync_try env es s1 of
                 (Inl e, s2) \<Rightarrow> (None, sync_finally (sync_catch e s2))
               | (Inr _, s2) \<Rightarrow> (None, sync_finally s2))"
  using assms by (simp add: syncData_def getAllEntries_def split: sum.splits option.splits)

lemma sync_try_failure_class:
  assumes "\<not> remote_accepts env"
  shows "(case sync_try env es s of
            (Inl e, s2) \<Rightarrow> sync_finally (sync_catch e s2)
          | (Inr _, s2) \<Rightarrow> sync_finally s2) =
         s\<lparr>network := network s @ [(appsScriptUrl (settings s), SyncBatch (build_payload es s))],
            console := console s @
              (case sync_fetch env of
                 Inl e \<Rightarrow> [ConsoleError e]
               | Inr resp \<Rightarrow>
                   (case response_json resp of
                      JsonRejected e \<Rightarrow> [ConsoleError e]
                    | JsonNull \<Rightarrow> [ConsoleError NullPropertyTypeError]
                    | JsonValue st msg \<Rightarrow> [])),
            currentStatus_text :=
              (case sync_fetch env of
                 Inl e \<Rightarrow> SyncErrorText e
               | Inr resp \<Rightarrow>
                   (case response_json resp of
                      JsonRejected e \<Rightarrow> SyncErrorText e
                    | JsonNull \<Rightarrow> SyncErrorText NullPropertyTypeError
                    | JsonValue st msg \<Rightarrow> SyncFailedText (if truthy msg then Some msg else None))),
            currentStatus_className := js ''error'',
            syncDataButton_disabled := False\<rparr>"
  using assms
  by (auto simp: sync_try_def remote_accepts_def Let_def sync_catch_def sync_finally_def
           split: sum.splits json_result.splits)

lemma clearEntries_resolves:
  "fst (clearEntries io s) = Inr () \<Longrightarrow>
     clearEntries io s' = (Inr (), s'\<lparr>indexedDB := store_clear (indexedDB s')\<rparr>)"
  by (auto simp: clearEntries_def split: sum.splits option.splits)

lemma clearEntries_rejects:
  "fst (clearEntries io s) = Inl e \<Longrightarrow> clearEntries io s' = (Inl e, s')"
  by (auto simp: clearEntries_def split: sum.splits option.splits)

lemma syncData_accepted_cleared:
  assumes read: "getAllEntries (sync_read env) s = Inr es" and ne: "es \<noteq> []"
      and fetch: "sync_fetch env = Inr resp" and ok: "response_ok resp"
      and body: "response_json resp = JsonValue (JSNumber 200) msg"
      and clear: "fst (clearEntries (sync_clear env) s) = Inr ()"
  shows "syncData env s =
     (None,
      s\<lparr>indexedDB := store_clear (indexedDB s),
        localStorage := (localStorage s)(LAST_SYNC_KEY \<mapsto> Number_toString (sync_now env)),
        currentStatus_text := SyncSucceededText msg,
        currentStatus_className := js ''success'',
        syncDataButton_disabled := False,
        network := network s @
          [(appsScriptUrl (settings s), SyncBatch (build_payload es s)),
           (appsScriptUrl (settings s), UpdateLastSyncTime (deviceId s))],
        console := console s @
          [case sync_fetch2 env of Inl e \<Rightarrow> ConsoleWarn e | Inr _ \<Rightarrow> ConsoleLogLastSync]\<rparr>)"
  unfolding syncData_nonempty [OF read ne]
  by (simp add: sync_try_def Let_def fetch ok body clearEntries_resolves [OF clear]
        notify_lastSync_def sync_finally_def build_payload_def split: sum.splits)

lemma syncData_accepted_clear_rejects:
  assumes read: "getAllEntries (sync_read env) s = Inr es" and ne: "es \<noteq> []"
      and fetch: "sync_fetch env = Inr resp" and ok: "response_ok resp"
      and body: "response_json resp = JsonValue (JSNumber 200) msg"
      and clear: "fst (clearEntries (sync_clear env) s) = Inl e"
  shows "syncData env s =
     (None,
      s\<lparr>currentStatus_text := SyncErrorText e,
        currentStatus_className := js ''error'',
        syncDataButton_disabled := False,
        network := network s @ [(appsScriptUrl (settings s), SyncBatch (build_payload es s))],
        console := console s @ [ConsoleError e]\<rparr>)"
  unfolding syncData_nonempty [OF read ne]
  by (simp add: sync_try_def Let_def fetch ok body clearEntries_rejects [OF clear]
        sync_catch_def sync_finally_def build_payload_def)

lemma syncData_first_request:
  assumes read: "getAllEntries (sync_read env) s = Inr es" and ne: "es \<noteq> []"
  shows "take (Suc (length (network s))) (network (snd (syncData env s))) =
           network s @ [(appsScriptUrl (settings s), SyncBatch (build_payload es s))]"
  unfolding syncData_nonempty [OF read ne]
  by (auto simp: sync_try_def Let_def clearEntries_def openDB_def notify_lastSync_def
        sync_catch_def sync_finally_def build_payload_def
        split: sum.splits json_result.splits option.splits)

section \<open>Scanner input: auxiliary facts\<close>

lemma class_success_not_error: "js ''success'' \<noteq> js ''error''"
  by (simp add: js_def)

lemma digits_test_length14:
  "length m = 14 \<Longrightarrow> digits_test m \<longleftrightarrow> list_all isDigit m"
  by (auto simp: digits_test_def)

lemma addEntry_resolves:
  "fst (addEntry io now m s) = Inr () \<Longrightarrow>
     addEntry io now m s' = (Inr (), s'\<lparr>indexedDB := store_add (indexedDB s') m now (deviceId s')\<rparr>)"
  by (auto simp: addEntry_def split: sum.splits option.splits)

lemma addEntry_rejects:
  "fst (addEntry io now m s) = Inl e \<Longrightarrow> addEntry io now m s' = (Inl e, s')"
  by (auto simp: addEntry_def split: sum.splits option.splits)

lemma addEntry_cases:
  "(\<exists>e. fst (addEntry io now m s) = Inl e) \<or> fst (addEntry io now m s) = Inr ()"
  by (auto simp: addEntry_def split: sum.splits option.splits)

lemma submitScan_unconfigured:
  assumes "\<not> configured s"
  shows "submitScan env raw s =
           (None, s\<lparr>scanInput_value := [], alerts := alerts s + 1,
                     currentStatus_text := ConfigIncompleteText,
                     currentStatus_className := js ''error''\<rparr>)"
  using assms by (auto simp: submitScan_def scanInput_keypress_def configured_def Let_def)

lemma submitScan_invalid:
  assumes "configured s" and "\<not> (length (trim raw) = 14 \<and> list_all isDigit (trim raw))"
  shows "submitScan env raw s =
           (None, s\<lparr>scanInput_value := [],
                     currentStatus_text := InvalidMemberText (trim raw),
                     currentStatus_className := js ''error''\<rparr>)"
  using assms
  by (auto simp: submitScan_def scanInput_keypress_def configured_def Let_def digits_test_length14)

lemma submitScan_stored:
  assumes "configured s" and "length (trim raw) = 14" and "list_all isDigit (trim raw)"
      and "fst (addEntry (scan_idb env) (scan_clock env) (trim raw) s) = Inr ()"
  shows "submitScan env raw s =
           (None, s\<lparr>scanInput_value := [],
                     indexedDB := store_add (indexedDB s) (trim raw) (scan_clock env) (deviceId s),
                     currentStatus_text := PointAddedText (trim raw),
                     currentStatus_className := js ''success''\<rparr>)"
  using assms(1-3)
  by (simp add: submitScan_def scanInput_keypress_def configured_def Let_def digits_test_length14
        addEntry_resolves [OF assms(4)])

lemma submitScan_append_rejects:
  assumes "configured s" and "length (trim raw) = 14" and "list_all isDigit (trim raw)"
      and "fst (addEntry (scan_idb env) (scan_clock env) (trim raw) s) = Inl e"
  shows "submitScan env raw s = (Some e, s\<lparr>scanInput_value := []\<rparr>)"
  using assms(1-3)
  by (simp add: submitScan_def scanInput_keypress_def configured_def Let_def digits_test_length14
        addEntry_rejects [OF assms(4)])

lemma submitScan_accepted_iff:
  "fst (submitScan env raw s) = None
     \<and> currentStatus_className (snd (submitScan env raw s)) = js ''success''
   \<longleftrightarrow> configured s \<and> length (trim raw) = 14 \<and> list_all isDigit (trim raw)
       \<and> fst (addEntry (scan_idb env) (scan_clock env) (trim raw) s) = Inr ()"
proof (cases "configured s")
  case False
  then show ?thesis by (simp add: submitScan_unconfigured class_success_not_error [symmetric])
next
  case conf: True
  show ?thesis
  proof (cases "length (trim raw) = 14 \<and> list_all isDigit (trim raw)")
    case False
    then show ?thesis
      using conf by (auto simp: submitScan_invalid class_success_not_error [symmetric])
  next
    case valid: True
    from addEntry_cases [of "scan_idb env" "scan_clock env" "trim raw" s]
    show ?thesis
    proof
      assume "\<exists>e. fst (addEntry (scan_idb env) (scan_clock env) (trim raw) s) = Inl e"
      then obtain e where e: "fst (addEntry (scan_idb env) (scan_clock env) (trim raw) s) = Inl e" ..
      show ?thesis using conf valid e by (simp add: submitScan_append_rejects [OF _ _ _ e])
    next
      assume r: "fst (addEntry (scan_idb env) (scan_clock env) (trim raw) s) = Inr ()"
      show ?thesis using conf valid r by (simp add: submitScan_stored [OF _ _ _ r])
    qed
  qed
qed

text \<open>
  What the listener does with the outcome of the append: a scan is accepted only if
  \<open>addEntry\<close> resolved, and then the record is in the store; when the append of a valid
  scan fails with \<open>e\<close>, the listener's promise is rejected with \<open>e\<close> and the state is
  unchanged apart from the input field, cleared at line 135.
\<close>

lemma submitScan_append_outcome:
  "(fst (submitScan env raw s) = None
      \<and> currentStatus_className (snd (submitScan env raw s)) = js ''success'' \<longrightarrow>
      fst (addEntry (scan_idb env) (scan_clock env) (trim raw) s) = Inr ()
    \<and> indexedDB (snd (submitScan env raw s)) =
        store_add (indexedDB s) (trim raw) (scan_clock env) (deviceId s))
 \<and> (\<forall>e. configured s \<and> length (trim raw) = 14 \<and> list_all isDigit (trim raw)
        \<and> fst (addEntry (scan_idb env) (scan_clock env) (trim raw) s) = Inl e \<longrightarrow>
      fst (submitScan env raw s) = Some e
    \<and> indexedDB (snd (submitScan env raw s)) = indexedDB s
    \<and> snd (submitScan env raw s) = s\<lparr>scanInput_value := []\<rparr>)"
proof (intro conjI impI allI)
  assume acc: "fst (submitScan env raw s) = None
      \<and> currentStatus_className (snd (submitScan env raw s)) = js ''success''"
  then have c: "configured s" and l: "length (trim raw) = 14" and d: "list_all isDigit (trim raw)"
    and a: "fst (addEntry (scan_idb env) (scan_clock env) (trim raw) s) = Inr ()"
    using submitScan_accepted_iff [of env raw s] by blast+
  show "fst (addEntry (scan_idb env) (scan_clock env) (trim raw) s) = Inr ()" by (rule a)
  show "indexedDB (snd (submitScan env raw s)) =
          store_add (indexedDB s) (trim raw) (scan_clock env) (deviceId s)"
    by (simp add: submitScan_stored [OF c l d a])
next
  fix e
  assume h: "configured s \<and> length (trim raw) = 14 \<and> list_all isDigit (trim raw)
        \<and> fst (addEntry (scan_idb env) (scan_clock env) (trim raw) s) = Inl e"
  then have run: "submitScan env raw s = (Some e, s\<lparr>scanInput_value := []\<rparr>)"
    by (simp add: submitScan_append_rejects)
  show "fst (submitScan env raw s) = Some e" by (simp add: run)
  show "indexedDB (snd (submitScan env raw s)) = indexedDB s" by (simp add: run)
  show "snd (submitScan env raw s) = s\<lparr>scanInput_value := []\<rparr>" by (simp add: run)
qed

section \<open>Device identity: auxiliary facts\<close>





text \<open>
  Had the function the persisting statement the specification speaks of, the next call
  would return the identifier that the reset generated, and leave localStorage as it is.
\<close>

lemma deviceId_after_resetDevice_persist:
  "uuid2 \<noteq> [] \<Longrightarrow>
     deviceId_getOrCreate uuid3
       (localStorage (resetDevice_persist (resetDevice True uuid2 s))) =
     (uuid2, localStorage (resetDevice_persist (resetDevice True uuid2 s)))"
  by (simp add: deviceId_getOrCreate_def resetDevice_def resetDevice_begin_def
        resetDevice_persist_def Let_def)

section \<open>Service worker: auxiliary facts\<close>

lemma caches_match_Some_mem:
  "caches_match cs req = Some r \<Longrightarrow> \<exists>name c. (name, c) \<in> set cs \<and> (req, r) \<in> set c"
proof (induction cs)
  case Nil
  then show ?case by simp
next
  case (Cons p cs)
  obtain name c where p: "p = (name, c)" by (cases p)
  show ?case
  proof (cases "map_of c req")
    case None
    with Cons p show ?thesis by auto
  next
    case (Some r')
    with Cons.prems p have "r' = r" by simp
    with Some have "(req, r) \<in> set c" by (simp add: map_of_SomeD)
    with p show ?thesis by auto
  qed
qed

lemma caches_match_None_iff:
  "caches_match cs req = None \<longleftrightarrow> (\<forall>name c. (name, c) \<in> set cs \<longrightarrow> req \<notin> fst ` set c)"
proof (induction cs)
  case Nil
  then show ?case by simp
next
  case (Cons p cs)
  obtain name c where p: "p = (name, c)" by (cases p)
  show ?case
  proof (cases "map_of c req")
    case None
    then have "req \<notin> fst ` set c" by (simp add: map_of_eq_None_iff)
    with None Cons.IH p show ?thesis by auto
  next
    case (Some r)
    then have "req \<in> fst ` set c" by (metis map_of_eq_None_iff option.distinct(1))
    with Some p show ?thesis by auto
  qed
qed

section \<open>The claims\<close>

text \<open>
  Claim C1. A run of \<open>syncData\<close> that reads a non-empty queue and whose submission is
  not accepted settles normally and leaves the object store as it was (the same
  records in the same order, the same key generator) and localStorage as it was. The
  status has class \<open>error\<close>; its text is the "sync failed" line when a body was parsed
  (HTTP status not ok, or body status other than 200), and the "sync error" line with
  the caught error when \<open>fetch\<close> rejected, the body did not parse, or the body was
  \<open>null\<close>.
\<close>

theorem syncData_failure_keeps_queue:
  assumes read: "getAllEntries (sync_read env) s = Inr es" and ne: "es \<noteq> []"
      and fail: "\<not> remote_accepts env"
  shows "fst (syncData env s) = None
       \<and> indexedDB (snd (syncData env s)) = indexedDB s
       \<and> records (indexedDB (snd (syncData env s))) = es
       \<and> localStorage (snd (syncData env s)) = localStorage s
       \<and> currentStatus_className (snd (syncData env s)) = js ''error''
       \<and> (\<forall>resp st msg. sync_fetch env = Inr resp \<and> response_json resp = JsonValue st msg \<longrightarrow>
            currentStatus_text (snd (syncData env s)) =
              SyncFailedText (if truthy msg then Some msg else None))
       \<and> (\<forall>e. sync_fetch env = Inl e \<or>
                (\<exists>resp. sync_fetch env = Inr resp \<and> response_json resp = JsonRejected e) \<longrightarrow>
            currentStatus_text (snd (syncData env s)) = SyncErrorText e)
       \<and> (\<forall>resp. sync_fetch env = Inr resp \<and> response_json resp = JsonNull \<longrightarrow>
            currentStatus_text (snd (syncData env s)) = SyncErrorText NullPropertyTypeError)"
proof -
  let ?s1 = "s\<lparr>currentStatus_text := SyncingText,
                currentStatus_className := js ''info'',
                syncDataButton_disabled := True\<rparr>"
  have run: "syncData env s =
      (None, case sync_try env es ?s1 of
               (Inl e, s2) \<Rightarrow> sync_finally (sync_catch e s2)
             | (Inr _, s2) \<Rightarrow> sync_finally s2)"
    by (simp add: syncData_nonempty [OF read ne] split: prod.splits sum.splits)
  have recs: "records (indexedDB s) = es"
    using getAllEntries_records [OF read] by simp
  show ?thesis
    unfolding run sync_try_failure_class [OF fail]
    using recs by (auto split: sum.splits json_result.splits)
qed

theorem syncData_failure_keeps_queue_witness:
  "getAllEntries (sync_read (example_sync_env\<lparr>sync_fetch := Inl (ErrorObject (js ''Failed to fetch''))\<rparr>))
     example_state = Inr example_records
   \<and> example_records \<noteq> []
   \<and> \<not> remote_accepts (example_sync_env\<lparr>sync_fetch := Inl (ErrorObject (js ''Failed to fetch''))\<rparr>)
   \<and> records (indexedDB (snd (syncData
        (example_sync_env\<lparr>sync_fetch := Inl (ErrorObject (js ''Failed to fetch''))\<rparr>)
        example_state))) = example_records
   \<and> currentStatus_text (snd (syncData
        (example_sync_env\<lparr>sync_fetch := Inl (ErrorObject (js ''Failed to fetch''))\<rparr>)
        example_state)) = SyncErrorText (ErrorObject (js ''Failed to fetch''))
   \<and> \<not> remote_accepts (example_sync_env\<lparr>sync_fetch :=
        Inr \<lparr>response_ok = False,
             response_json = JsonValue (JSNumber 500) (JSString (js ''store unknown''))\<rparr>\<rparr>)
   \<and> records (indexedDB (snd (syncData
        (example_sync_env\<lparr>sync_fetch :=
           Inr \<lparr>response_ok = False,
                response_json = JsonValue (JSNumber 500) (JSString (js ''store unknown''))\<rparr>\<rparr>)
        example_state))) = example_records
   \<and> currentStatus_text (snd (syncData
        (example_sync_env\<lparr>sync_fetch :=
           Inr \<lparr>response_ok = False,
                response_json = JsonValue (JSNumber 500) (JSString (js ''store unknown''))\<rparr>\<rparr>)
        example_state)) = SyncFailedText (Some (JSString (js ''store unknown'')))"
proof -
  let ?off = "example_sync_env\<lparr>sync_fetch := Inl (ErrorObject (js ''Failed to fetch''))\<rparr>"
  let ?rej = "example_sync_env\<lparr>sync_fetch :=
           Inr \<lparr>response_ok = False,
                response_json = JsonValue (JSNumber 500) (JSString (js ''store unknown''))\<rparr>\<rparr>"
  have r1: "getAllEntries (sync_read ?off) example_state = Inr example_records"
    by (simp add: getAllEntries_def openDB_def example_state_def example_sync_env_def idb_resolves_def)
  have r2: "getAllEntries (sync_read ?rej) example_state = Inr example_records"
    by (simp add: getAllEntries_def openDB_def example_state_def example_sync_env_def idb_resolves_def)
  have ne: "example_records \<noteq> []"
    by (simp add: example_records_def)
  have f1: "\<not> remote_accepts ?off"
    by (simp add: remote_accepts_def)
  have f2: "\<not> remote_accepts ?rej"
    by (simp add: remote_accepts_def)
  have m: "truthy (JSString (js ''store unknown''))"
    by (simp add: js_def)
  from syncData_failure_keeps_queue [OF r1 ne f1] syncData_failure_keeps_queue [OF r2 ne f2]
    r1 ne f1 f2 m
  show ?thesis by (simp add: example_state_def)
qed

text \<open>
  Claim C2, as amended. A run of \<open>syncData\<close> that reads a non-empty queue, receives a
  response with \<open>response.ok\<close> and body status 200, and whose \<open>clearEntries\<close> resolves,
  leaves the queue empty, stores the clock reading under \<open>lastSyncTime\<close>, and shows the
  "sync succeeded" line with the message of the response, class \<open>success\<close>.
\<close>

theorem syncData_success_clears_queue:
  assumes read: "getAllEntries (sync_read env) s = Inr es" and ne: "es \<noteq> []"
      and fetch: "sync_fetch env = Inr resp" and ok: "response_ok resp"
      and body: "response_json resp = JsonValue (JSNumber 200) msg"
      and clear: "fst (clearEntries (sync_clear env) s) = Inr ()"
  shows "fst (syncData env s) = None
       \<and> records (indexedDB (snd (syncData env s))) = []
       \<and> length (records (indexedDB (snd (syncData env s)))) = 0
       \<and> localStorage (snd (syncData env s)) LAST_SYNC_KEY = Some (Number_toString (sync_now env))
       \<and> currentStatus_text (snd (syncData env s)) = SyncSucceededText msg
       \<and> currentStatus_className (snd (syncData env s)) = js ''success''"
  by (simp add: syncData_accepted_cleared [OF assms] store_clear_def)

theorem syncData_success_clears_queue_witness:
  "getAllEntries (sync_read example_sync_env) example_state = Inr example_records
   \<and> example_records \<noteq> []
   \<and> sync_fetch example_sync_env = Inr example_accepting
   \<and> response_ok example_accepting
   \<and> response_json example_accepting = JsonValue (JSNumber 200) (JSString (js ''ok''))
   \<and> fst (clearEntries (sync_clear example_sync_env) example_state) = Inr ()
   \<and> fst (syncData example_sync_env example_state) = None
   \<and> records (indexedDB (snd (syncData example_sync_env example_state))) = []
   \<and> localStorage (snd (syncData example_sync_env example_state)) LAST_SYNC_KEY =
       Some (js ''1743498000000'')
   \<and> currentStatus_text (snd (syncData example_sync_env example_state)) =
       SyncSucceededText (JSString (js ''ok''))"
proof -
  have r: "getAllEntries (sync_read example_sync_env) example_state = Inr example_records"
    by (simp add: getAllEntries_def openDB_def example_state_def example_sync_env_def
          idb_resolves_def)
  have ne: "example_records \<noteq> []"
    by (simp add: example_records_def)
  have f: "sync_fetch example_sync_env = Inr example_accepting"
    by (simp add: example_sync_env_def)
  have ok: "response_ok example_accepting"
    by (simp add: example_accepting_def)
  have b: "response_json example_accepting = JsonValue (JSNumber 200) (JSString (js ''ok''))"
    by (simp add: example_accepting_def)
  have c: "fst (clearEntries (sync_clear example_sync_env) example_state) = Inr ()"
    by (simp add: clearEntries_def openDB_def example_sync_env_def idb_resolves_def)
  have n: "Number_toString (sync_now example_sync_env) = js ''1743498000000''"
    by (simp add: example_sync_env_def Number_toString_def js_def)
  from syncData_success_clears_queue [OF r ne f ok b c] r ne f ok b c n
  show ?thesis by simp
qed

text \<open>
  Claim C2 as stated, without the condition on \<open>clearEntries\<close>, fails: with the
  response accepted and the request of \<open>store.clear()\<close> failing, the two records stay in
  the queue, \<open>lastSyncTime\<close> is not stored and the status is the "sync error" line.
\<close>

theorem syncData_success_counterexample:
  "getAllEntries (sync_read (example_sync_env\<lparr>sync_clear := idb_rejects\<rparr>)) example_state =
      Inr example_records
   \<and> example_records \<noteq> []
   \<and> sync_fetch (example_sync_env\<lparr>sync_clear := idb_rejects\<rparr>) = Inr example_accepting
   \<and> response_ok example_accepting
   \<and> response_json example_accepting = JsonValue (JSNumber 200) (JSString (js ''ok''))
   \<and> fst (syncData (example_sync_env\<lparr>sync_clear := idb_rejects\<rparr>) example_state) = None
   \<and> records (indexedDB (snd (syncData (example_sync_env\<lparr>sync_clear := idb_rejects\<rparr>)
        example_state))) = example_records
   \<and> length (records (indexedDB (snd (syncData (example_sync_env\<lparr>sync_clear := idb_rejects\<rparr>)
        example_state)))) = 2
   \<and> localStorage (snd (syncData (example_sync_env\<lparr>sync_clear := idb_rejects\<rparr>)
        example_state)) LAST_SYNC_KEY = None
   \<and> currentStatus_text (snd (syncData (example_sync_env\<lparr>sync_clear := idb_rejects\<rparr>)
        example_state)) = SyncErrorText (ErrorObject (js ''QuotaExceededError''))"
proof -
  have k: "LAST_SYNC_KEY \<noteq> DEVICE_ID_KEY"
    by (simp add: LAST_SYNC_KEY_def DEVICE_ID_KEY_def js_def)
  have run: "syncData (example_sync_env\<lparr>sync_clear := idb_rejects\<rparr>) example_state =
     (None,
      example_state
        \<lparr>currentStatus_text := SyncErrorText (ErrorObject (js ''QuotaExceededError'')),
         currentStatus_className := js ''error'',
         syncDataButton_disabled := False,
         network := [(appsScriptUrl example_settings,
                      SyncBatch (build_payload example_records example_state))],
         console := [ConsoleError (ErrorObject (js ''QuotaExceededError''))]\<rparr>)"
    by (simp add: syncData_def getAllEntries_def openDB_def sync_try_def clearEntries_def
          sync_catch_def sync_finally_def build_payload_def Let_def
          example_state_def example_sync_env_def example_accepting_def
          idb_resolves_def idb_rejects_def example_records_def)
  show ?thesis
    unfolding run using k
    by (simp add: getAllEntries_def openDB_def example_state_def example_sync_env_def
          example_accepting_def idb_resolves_def example_records_def)
qed

text \<open>
  Claim C3. When the trimmed input does not have length 14 or has a character that is
  not an ASCII digit, the scan is rejected (status class \<open>error\<close>) and the object store
  is unchanged. When a scan is accepted (the listener finishes with status class
  \<open>success\<close>), the trimmed input has length 14 and only ASCII digits, the queue is one
  record longer, the earlier records are untouched and the new record carries the
  trimmed input as \<open>memberId\<close>. With the settings present and the append succeeding, a
  scan is accepted exactly when its trimmed input is 14 ASCII digits.
\<close>

theorem submitScan_validation:
  "(length (trim raw) \<noteq> 14 \<or> \<not> list_all isDigit (trim raw) \<longrightarrow>
      fst (submitScan env raw s) = None
    \<and> currentStatus_className (snd (submitScan env raw s)) = js ''error''
    \<and> indexedDB (snd (submitScan env raw s)) = indexedDB s)
 \<and> (fst (submitScan env raw s) = None
      \<and> currentStatus_className (snd (submitScan env raw s)) = js ''success'' \<longrightarrow>
      length (trim raw) = 14 \<and> list_all isDigit (trim raw)
    \<and> length (records (indexedDB (snd (submitScan env raw s)))) =
        length (records (indexedDB s)) + 1
    \<and> butlast (records (indexedDB (snd (submitScan env raw s)))) = records (indexedDB s)
    \<and> memberId (last (records (indexedDB (snd (submitScan env raw s))))) = trim raw)
 \<and> (configured s \<and> fst (addEntry (scan_idb env) (scan_clock env) (trim raw) s) = Inr () \<longrightarrow>
      (fst (submitScan env raw s) = None
        \<and> currentStatus_className (snd (submitScan env raw s)) = js ''success''
       \<longleftrightarrow> length (trim raw) = 14 \<and> list_all isDigit (trim raw)))"
proof (intro conjI impI)
  assume inv: "length (trim raw) \<noteq> 14 \<or> \<not> list_all isDigit (trim raw)"
  then have nv: "\<not> (length (trim raw) = 14 \<and> list_all isDigit (trim raw))" by blast
  show "fst (submitScan env raw s) = None"
    by (cases "configured s") (simp_all add: submitScan_unconfigured submitScan_invalid [OF _ nv])
  show "currentStatus_className (snd (submitScan env raw s)) = js ''error''"
    by (cases "configured s") (simp_all add: submitScan_unconfigured submitScan_invalid [OF _ nv])
  show "indexedDB (snd (submitScan env raw s)) = indexedDB s"
    by (cases "configured s") (simp_all add: submitScan_unconfigured submitScan_invalid [OF _ nv])
next
  assume acc: "fst (submitScan env raw s) = None
      \<and> currentStatus_className (snd (submitScan env raw s)) = js ''success''"
  then have c: "configured s" and l: "length (trim raw) = 14" and d: "list_all isDigit (trim raw)"
    and a: "fst (addEntry (scan_idb env) (scan_clock env) (trim raw) s) = Inr ()"
    using submitScan_accepted_iff [of env raw s] by blast+
  note run = submitScan_stored [OF c l d a]
  show "length (trim raw) = 14" by (rule l)
  show "list_all isDigit (trim raw)" by (rule d)
  show "length (records (indexedDB (snd (submitScan env raw s)))) =
          length (records (indexedDB s)) + 1"
    by (simp add: run store_add_def)
  show "butlast (records (indexedDB (snd (submitScan env raw s)))) = records (indexedDB s)"
    by (simp add: run store_add_def)
  show "memberId (last (records (indexedDB (snd (submitScan env raw s))))) = trim raw"
    by (simp add: run store_add_def)
next
  assume "configured s \<and> fst (addEntry (scan_idb env) (scan_clock env) (trim raw) s) = Inr ()"
  then show "(fst (submitScan env raw s) = None
        \<and> currentStatus_className (snd (submitScan env raw s)) = js ''success'')
       = (length (trim raw) = 14 \<and> list_all isDigit (trim raw))"
    using submitScan_accepted_iff [of env raw s] by blast
qed

theorem submitScan_validation_witness:
  "length (trim (js ''12345'')) \<noteq> 14
   \<and> fst (submitScan example_scan_env (js ''12345'') example_state) = None
   \<and> currentStatus_className (snd (submitScan example_scan_env (js ''12345'') example_state)) =
       js ''error''
   \<and> indexedDB (snd (submitScan example_scan_env (js ''12345'') example_state)) =
       indexedDB example_state
   \<and> configured example_state
   \<and> fst (addEntry (scan_idb example_scan_env) (scan_clock example_scan_env)
        (trim (js '' 77770000111122 '')) example_state) = Inr ()
   \<and> trim (js '' 77770000111122 '') = js ''77770000111122''
   \<and> length (trim (js '' 77770000111122 '')) = 14
   \<and> list_all isDigit (trim (js '' 77770000111122 ''))
   \<and> fst (submitScan example_scan_env (js '' 77770000111122 '') example_state) = None
   \<and> currentStatus_className
        (snd (submitScan example_scan_env (js '' 77770000111122 '') example_state)) =
       js ''success''
   \<and> length (records (indexedDB
        (snd (submitScan example_scan_env (js '' 77770000111122 '') example_state)))) = 3
   \<and> memberId (last (records (indexedDB
        (snd (submitScan example_scan_env (js '' 77770000111122 '') example_state))))) =
       js ''77770000111122''"
proof -
  let ?bad = "js ''12345''" and ?good = "js '' 77770000111122 ''"
  have bad: "length (trim ?bad) \<noteq> 14"
    by (simp add: trim_def js_def isWhiteSpace_def)
  have tr: "trim ?good = js ''77770000111122''"
    by (simp add: trim_def js_def isWhiteSpace_def)
  have len: "length (trim ?good) = 14"
    by (simp add: tr) (simp add: js_def)
  have dig: "list_all isDigit (trim ?good)"
    by (simp add: tr) (simp add: js_def isDigit_def)
  have conf: "configured example_state"
    by (simp add: configured_def example_state_def example_settings_def js_def)
  have add: "fst (addEntry (scan_idb example_scan_env) (scan_clock example_scan_env)
               (trim ?good) example_state) = Inr ()"
    by (simp add: addEntry_def openDB_def example_scan_env_def idb_resolves_def)
  have old: "length (records (indexedDB example_state)) = 2"
    by (simp add: example_state_def example_records_def)
  note b = submitScan_validation [of ?bad example_scan_env example_state]
  note g = submitScan_validation [of ?good example_scan_env example_state]
  from b bad have b1: "fst (submitScan example_scan_env ?bad example_state) = None"
    and b2: "currentStatus_className (snd (submitScan example_scan_env ?bad example_state)) =
               js ''error''"
    and b3: "indexedDB (snd (submitScan example_scan_env ?bad example_state)) =
               indexedDB example_state"
    by blast+
  from g conf add len dig
  have acc: "fst (submitScan example_scan_env ?good example_state) = None
      \<and> currentStatus_className (snd (submitScan example_scan_env ?good example_state)) =
          js ''success''"
    by blast
  with g have g3: "length (records (indexedDB (snd (submitScan example_scan_env ?good
                      example_state)))) = length (records (indexedDB example_state)) + 1"
    and g4: "memberId (last (records (indexedDB (snd (submitScan example_scan_env ?good
                      example_state))))) = trim ?good"
    by blast+
  from g3 old have g3': "length (records (indexedDB (snd (submitScan example_scan_env ?good
                      example_state)))) = 3"
    by simp
  from g4 tr have g4': "memberId (last (records (indexedDB (snd (submitScan example_scan_env
                      ?good example_state))))) = js ''77770000111122''"
    by simp
  from acc have a1: "fst (submitScan example_scan_env ?good example_state) = None"
    and a2: "currentStatus_className (snd (submitScan example_scan_env ?good example_state)) =
               js ''success''"
    by blast+
  show ?thesis
    by (intro conjI bad b1 b2 b3 conf add tr len dig a1 a2 g3' g4')
qed

text \<open>
  Claim C4. A run of \<open>syncData\<close> that reads an empty queue settles normally with the
  "nothing to sync" line; no request is handed to \<open>fetch\<close>, and the object store and
  localStorage (hence the \<open>lastSyncTime\<close> entry) are as before.
\<close>

theorem syncData_nothing_to_sync:
  assumes "getAllEntries (sync_read env) s = Inr []"
  shows "fst (syncData env s) = None
       \<and> currentStatus_text (snd (syncData env s)) = NothingToSyncText
       \<and> network (snd (syncData env s)) = network s
       \<and> indexedDB (snd (syncData env s)) = indexedDB s
       \<and> localStorage (snd (syncData env s)) = localStorage s"
  by (simp add: syncData_empty [OF assms])

theorem syncData_nothing_to_sync_witness:
  "getAllEntries (sync_read example_sync_env) example_empty_state = Inr []
   \<and> fst (syncData example_sync_env example_empty_state) = None
   \<and> currentStatus_text (snd (syncData example_sync_env example_empty_state)) = NothingToSyncText
   \<and> network (snd (syncData example_sync_env example_empty_state)) = []
   \<and> records (indexedDB (snd (syncData example_sync_env example_empty_state))) = []
   \<and> localStorage (snd (syncData example_sync_env example_empty_state)) LAST_SYNC_KEY = None"
proof -
  have h: "getAllEntries (sync_read example_sync_env) example_empty_state = Inr []"
    by (simp add: getAllEntries_def openDB_def example_defs)
  have k: "LAST_SYNC_KEY \<noteq> DEVICE_ID_KEY"
    by (simp add: LAST_SYNC_KEY_def DEVICE_ID_KEY_def js_def)
  from syncData_nothing_to_sync [OF h] h k show ?thesis
    by (simp add: example_defs)
qed

text \<open>
  Claim C5, at an input where the code departs from it. The status span shows the
  success line of the previous scan; a valid scan arrives and the request of
  \<open>store.add\<close> fails. The listener's promise is rejected with the error, which nothing
  catches, and the state is exactly what it was: no rejection is shown, no alert is
  raised, and the status still reads as the success of the previous scan.
\<close>

theorem submitScan_append_failure_unreported:
  "submitScan (example_scan_env\<lparr>scan_idb := idb_rejects\<rparr>) (js ''77770000111122'')
     example_scanned_state =
     (Some (ErrorObject (js ''QuotaExceededError'')), example_scanned_state)
   \<and> currentStatus_text example_scanned_state = PointAddedText (js ''00000000000042'')
   \<and> currentStatus_className example_scanned_state = js ''success''
   \<and> alerts example_scanned_state = 0"
proof -
  have tr: "trim (js ''77770000111122'') = js ''77770000111122''"
    by (simp add: trim_def js_def isWhiteSpace_def)
  have len: "length (js ''77770000111122'') = 14"
    by (simp add: js_def)
  have dig: "digits_test (js ''77770000111122'')"
    by (simp add: digits_test_def js_def isDigit_def)
  have url: "truthy (appsScriptUrl (settings example_scanned_state))"
    and sid: "truthy (storeId (settings example_scanned_state))"
    and pv: "truthy (pointValue (settings example_scanned_state))"
    by (simp_all add: example_scanned_state_def example_state_def example_settings_def js_def)
  have inp: "example_scanned_state\<lparr>scanInput_value := []\<rparr> = example_scanned_state"
    by (simp add: example_scanned_state_def example_state_def)
  have run: "submitScan (example_scan_env\<lparr>scan_idb := idb_rejects\<rparr>) (js ''77770000111122'')
               example_scanned_state =
             (Some (ErrorObject (js ''QuotaExceededError'')), example_scanned_state)"
    by (simp add: submitScan_def scanInput_keypress_def Let_def tr len dig url sid pv
          addEntry_def openDB_def idb_rejects_def inp)
  show ?thesis
    by (simp add: run) (simp add: example_scanned_state_def example_state_def)
qed

text \<open>
  Claim C6. When the endpoint address, the store identifier or the point value is
  absent (\<open>undefined\<close>) or otherwise falsy, the scan ends at line 141 with the alert
  and the "settings incomplete" line, class \<open>error\<close>; the object store is unchanged,
  and the outcome does not depend on what the database or the clock would have done.
\<close>

theorem submitScan_configuration_missing:
  assumes "\<not> truthy (appsScriptUrl (settings s)) \<or> \<not> truthy (storeId (settings s))
           \<or> \<not> truthy (pointValue (settings s))"
  shows "fst (submitScan env raw s) = None
       \<and> currentStatus_text (snd (submitScan env raw s)) = ConfigIncompleteText
       \<and> currentStatus_className (snd (submitScan env raw s)) = js ''error''
       \<and> alerts (snd (submitScan env raw s)) = alerts s + 1
       \<and> indexedDB (snd (submitScan env raw s)) = indexedDB s
       \<and> submitScan env' raw s = submitScan env raw s"
proof -
  from assms have "\<not> configured s" by (auto simp: configured_def)
  then show ?thesis by (simp add: submitScan_unconfigured)
qed

theorem submitScan_configuration_missing_witness:
  "\<not> truthy (appsScriptUrl (settings example_unconfigured_state))
   \<and> fst (submitScan example_scan_env (js ''12345678901234'') example_unconfigured_state) = None
   \<and> currentStatus_text
        (snd (submitScan example_scan_env (js ''12345678901234'') example_unconfigured_state)) =
       ConfigIncompleteText
   \<and> indexedDB
        (snd (submitScan example_scan_env (js ''12345678901234'') example_unconfigured_state)) =
       indexedDB example_unconfigured_state
   \<and> submitScan (example_scan_env\<lparr>scan_idb := idb_rejects\<rparr>) (js ''12345678901234'')
        example_unconfigured_state =
       submitScan example_scan_env (js ''12345678901234'') example_unconfigured_state"
proof -
  have h: "\<not> truthy (appsScriptUrl (settings example_unconfigured_state))"
    by (simp add: example_unconfigured_state_def)
  then have d: "\<not> truthy (appsScriptUrl (settings example_unconfigured_state))
      \<or> \<not> truthy (storeId (settings example_unconfigured_state))
      \<or> \<not> truthy (pointValue (settings example_unconfigured_state))"
    by blast
  from submitScan_configuration_missing
         [OF d, of example_scan_env "js ''12345678901234''"
            "example_scan_env\<lparr>scan_idb := idb_rejects\<rparr>"] h
  show ?thesis by blast
qed




text \<open>
  Claim C8. A run of \<open>syncData\<close> that reaches its success branch hands two requests to
  \<open>fetch\<close>: the batch, then \<open>updateLastSyncTime\<close> with the device identifier. When the
  second one rejects, the rejection goes to the console as a warning, and the run
  still settles normally with the "sync succeeded" line, the queue empty and
  \<open>lastSyncTime\<close> stored. Whatever the second \<open>fetch\<close> does, the outcome and the state
  differ in the console only.
\<close>

theorem syncData_notification_best_effort:
  assumes read: "getAllEntries (sync_read env) s = Inr es" and ne: "es \<noteq> []"
      and fetch: "sync_fetch env = Inr resp" and ok: "response_ok resp"
      and body: "response_json resp = JsonValue (JSNumber 200) msg"
      and clear: "fst (clearEntries (sync_clear env) s) = Inr ()"
  shows "network (snd (syncData env s)) =
           network s @ [(appsScriptUrl (settings s), SyncBatch (build_payload es s)),
                        (appsScriptUrl (settings s), UpdateLastSyncTime (deviceId s))]
       \<and> (\<forall>e. sync_fetch2 env = Inl e \<longrightarrow>
             console (snd (syncData env s)) = console s @ [ConsoleWarn e]
           \<and> fst (syncData env s) = None
           \<and> currentStatus_text (snd (syncData env s)) = SyncSucceededText msg
           \<and> currentStatus_className (snd (syncData env s)) = js ''success''
           \<and> records (indexedDB (snd (syncData env s))) = []
           \<and> localStorage (snd (syncData env s)) =
               (localStorage s)(LAST_SYNC_KEY \<mapsto> Number_toString (sync_now env)))
       \<and> (\<forall>r. fst (syncData (env\<lparr>sync_fetch2 := r\<rparr>) s) = fst (syncData env s)
             \<and> (snd (syncData (env\<lparr>sync_fetch2 := r\<rparr>) s))\<lparr>console := []\<rparr> =
               (snd (syncData env s))\<lparr>console := []\<rparr>)"
proof -
  have run: "\<And>r. syncData (env\<lparr>sync_fetch2 := r\<rparr>) s =
     (None,
      s\<lparr>indexedDB := store_clear (indexedDB s),
        localStorage := (localStorage s)(LAST_SYNC_KEY \<mapsto> Number_toString (sync_now env)),
        currentStatus_text := SyncSucceededText msg,
        currentStatus_className := js ''success'',
        syncDataButton_disabled := False,
        network := network s @
          [(appsScriptUrl (settings s), SyncBatch (build_payload es s)),
           (appsScriptUrl (settings s), UpdateLastSyncTime (deviceId s))],
        console := console s @
          [case r of Inl e \<Rightarrow> ConsoleWarn e | Inr _ \<Rightarrow> ConsoleLogLastSync]\<rparr>)"
    using syncData_accepted_cleared [of "env\<lparr>sync_fetch2 := r\<rparr>" s es resp msg for r]
      read ne fetch ok body clear by simp
  show ?thesis
    by (simp add: run syncData_accepted_cleared [OF assms] store_clear_def)
qed

theorem syncData_notification_best_effort_witness:
  "getAllEntries (sync_read
       (example_sync_env\<lparr>sync_fetch2 := Inl (ErrorObject (js ''Failed to fetch''))\<rparr>))
     example_state = Inr example_records
   \<and> example_records \<noteq> []
   \<and> sync_fetch (example_sync_env\<lparr>sync_fetch2 := Inl (ErrorObject (js ''Failed to fetch''))\<rparr>) =
       Inr example_accepting
   \<and> response_ok example_accepting
   \<and> response_json example_accepting = JsonValue (JSNumber 200) (JSString (js ''ok''))
   \<and> fst (clearEntries
       (sync_clear (example_sync_env\<lparr>sync_fetch2 := Inl (ErrorObject (js ''Failed to fetch''))\<rparr>))
       example_state) = Inr ()
   \<and> sync_fetch2 (example_sync_env\<lparr>sync_fetch2 := Inl (ErrorObject (js ''Failed to fetch''))\<rparr>) =
       Inl (ErrorObject (js ''Failed to fetch''))
   \<and> network (snd (syncData
       (example_sync_env\<lparr>sync_fetch2 := Inl (ErrorObject (js ''Failed to fetch''))\<rparr>)
       example_state)) =
       [(appsScriptUrl (settings example_state),
         SyncBatch (build_payload example_records example_state)),
        (appsScriptUrl (settings example_state), UpdateLastSyncTime (js ''device-a''))]
   \<and> console (snd (syncData
       (example_sync_env\<lparr>sync_fetch2 := Inl (ErrorObject (js ''Failed to fetch''))\<rparr>)
       example_state)) = [ConsoleWarn (ErrorObject (js ''Failed to fetch''))]
   \<and> currentStatus_text (snd (syncData
       (example_sync_env\<lparr>sync_fetch2 := Inl (ErrorObject (js ''Failed to fetch''))\<rparr>)
       example_state)) = SyncSucceededText (JSString (js ''ok''))
   \<and> records (indexedDB (snd (syncData
       (example_sync_env\<lparr>sync_fetch2 := Inl (ErrorObject (js ''Failed to fetch''))\<rparr>)
       example_state))) = []"
proof -
  let ?E = "example_sync_env\<lparr>sync_fetch2 := Inl (ErrorObject (js ''Failed to fetch''))\<rparr>"
  have r: "getAllEntries (sync_read ?E) example_state = Inr example_records"
    by (simp add: getAllEntries_def openDB_def example_state_def example_sync_env_def
          idb_resolves_def)
  have ne: "example_records \<noteq> []"
    by (simp add: example_records_def)
  have f: "sync_fetch ?E = Inr example_accepting"
    by (simp add: example_sync_env_def)
  have ok: "response_ok example_accepting"
    by (simp add: example_accepting_def)
  have b: "response_json example_accepting = JsonValue (JSNumber 200) (JSString (js ''ok''))"
    by (simp add: example_accepting_def)
  have c: "fst (clearEntries (sync_clear ?E) example_state) = Inr ()"
    by (simp add: clearEntries_def openDB_def example_sync_env_def idb_resolves_def)
  have f2: "sync_fetch2 ?E = Inl (ErrorObject (js ''Failed to fetch''))"
    by simp
  from syncData_notification_best_effort [OF r ne f ok b c] r ne f ok b c f2
  show ?thesis by (simp add: example_state_def)
qed

text \<open>
  Claim C9. When some cache has an entry for the request, the \<open>fetch\<close> listener
  answers with a stored response and hands nothing to the network. When no cache
  has one, it answers with what the network gives. In both cases the caches are
  afterwards what they were before.
\<close>

theorem fetch_listener_cache_first:
  "((\<exists>name c. (name, c) \<in> set (caches w) \<and> req \<in> fst ` set c) \<longrightarrow>
      (\<exists>r name c. (name, c) \<in> set (caches w) \<and> (req, r) \<in> set c
         \<and> caches_match (caches w) req = Some r
         \<and> fetch_listener net req w = (Inr r, w)))
 \<and> ((\<forall>name c. (name, c) \<in> set (caches w) \<longrightarrow> req \<notin> fst ` set c) \<longrightarrow>
      fetch_listener net req w = (net, w\<lparr>sw_network := sw_network w @ [req]\<rparr>))
 \<and> caches (snd (fetch_listener net req w)) = caches w"
proof (intro conjI impI)
  assume "\<exists>name c. (name, c) \<in> set (caches w) \<and> req \<in> fst ` set c"
  then have "caches_match (caches w) req \<noteq> None"
    by (simp add: caches_match_None_iff)
  then obtain r where r: "caches_match (caches w) req = Some r" by blast
  from caches_match_Some_mem [OF r] obtain name c
    where "(name, c) \<in> set (caches w)" "(req, r) \<in> set c" by blast
  moreover have "fetch_listener net req w = (Inr r, w)"
    by (simp add: fetch_listener_def r)
  ultimately show "\<exists>r name c. (name, c) \<in> set (caches w) \<and> (req, r) \<in> set c
         \<and> caches_match (caches w) req = Some r
         \<and> fetch_listener net req w = (Inr r, w)"
    using r by blast
next
  assume "\<forall>name c. (name, c) \<in> set (caches w) \<longrightarrow> req \<notin> fst ` set c"
  then have "caches_match (caches w) req = None"
    by (simp add: caches_match_None_iff)
  then show "fetch_listener net req w = (net, w\<lparr>sw_network := sw_network w @ [req]\<rparr>)"
    by (simp add: fetch_listener_def)
next
  show "caches (snd (fetch_listener net req w)) = caches w"
    by (simp add: fetch_listener_def split: option.splits)
qed

theorem fetch_listener_cache_first_witness:
  "(js ''kosuge-point-v1'',
      [(js ''index.html'', js ''<html>''), (js ''app.js'', js ''// app'')])
     \<in> set (caches example_worker)
   \<and> js ''app.js'' \<in> fst ` set [(js ''index.html'', js ''<html>''), (js ''app.js'', js ''// app'')]
   \<and> fetch_listener (Inl (ErrorObject (js ''Failed to fetch''))) (js ''app.js'') example_worker =
       (Inr (js ''// app''), example_worker)
   \<and> caches_match (caches example_worker) (js ''version.json'') = None
   \<and> fetch_listener (Inr (js ''{}'')) (js ''version.json'') example_worker =
       (Inr (js ''{}''), example_worker\<lparr>sw_network := [js ''version.json'']\<rparr>)
   \<and> caches (snd (fetch_listener (Inr (js ''{}'')) (js ''version.json'') example_worker)) =
       caches example_worker"
proof -
  let ?c = "[(js ''index.html'', js ''<html>''), (js ''app.js'', js ''// app'')]"
  let ?off = "Inl (ErrorObject (js ''Failed to fetch'')) :: exn + jsstring"
  let ?net = "Inr (js ''{}'') :: exn + jsstring"
  have m: "(js ''kosuge-point-v1'', ?c) \<in> set (caches example_worker)"
    by (simp add: example_worker_def)
  have p: "js ''app.js'' \<in> fst ` set ?c"
    by simp
  have hit: "caches_match (caches example_worker) (js ''app.js'') = Some (js ''// app'')"
    by (simp add: example_worker_def js_def)
  have miss: "caches_match (caches example_worker) (js ''version.json'') = None"
    by (simp add: example_worker_def js_def)
  then have none: "\<forall>name c. (name, c) \<in> set (caches example_worker) \<longrightarrow>
                     js ''version.json'' \<notin> fst ` set c"
    by (simp add: caches_match_None_iff)
  have nw: "sw_network example_worker = []"
    by (simp add: example_worker_def)
  from fetch_listener_cache_first [of example_worker "js ''app.js''" ?off] m p
  obtain r where "caches_match (caches example_worker) (js ''app.js'') = Some r"
    and "fetch_listener ?off (js ''app.js'') example_worker = (Inr r, example_worker)"
    by blast
  with hit have served: "fetch_listener ?off (js ''app.js'') example_worker =
                           (Inr (js ''// app''), example_worker)"
    by simp
  from fetch_listener_cache_first [of example_worker "js ''version.json''" ?net] none
  have through: "fetch_listener ?net (js ''version.json'') example_worker =
                   (?net, example_worker\<lparr>sw_network := sw_network example_worker @ [js ''version.json'']\<rparr>)"
    and same: "caches (snd (fetch_listener ?net (js ''version.json'') example_worker)) =
                 caches example_worker"
    by blast+
  from through nw have through': "fetch_listener ?net (js ''version.json'') example_worker =
                   (?net, example_worker\<lparr>sw_network := [js ''version.json'']\<rparr>)"
    by simp
  show ?thesis
    by (intro conjI m p served miss through' same)
qed

text \<open>
  Claim C10. When the response is accepted (\<open>response.ok\<close> and body status 200) and
  \<open>clearEntries\<close> then rejects with \<open>e\<close>, the run shows the "sync error" line with \<open>e\<close>,
  class \<open>error\<close>; localStorage is unchanged, so \<open>lastSyncTime\<close> is not updated; the
  object store keeps all its records; only the batch was handed to \<open>fetch\<close>. The next
  run that reads the queue hands the same batch to \<open>fetch\<close> again.
\<close>

theorem syncData_clear_failure_resubmits:
  assumes read: "getAllEntries (sync_read env) s = Inr es" and ne: "es \<noteq> []"
      and fetch: "sync_fetch env = Inr resp" and ok: "response_ok resp"
      and body: "response_json resp = JsonValue (JSNumber 200) msg"
      and clear: "fst (clearEntries (sync_clear env) s) = Inl e"
  shows "fst (syncData env s) = None
       \<and> currentStatus_text (snd (syncData env s)) = SyncErrorText e
       \<and> currentStatus_className (snd (syncData env s)) = js ''error''
       \<and> localStorage (snd (syncData env s)) = localStorage s
       \<and> indexedDB (snd (syncData env s)) = indexedDB s
       \<and> records (indexedDB (snd (syncData env s))) = es
       \<and> network (snd (syncData env s)) =
           network s @ [(appsScriptUrl (settings s), SyncBatch (build_payload es s))]
       \<and> (\<forall>env'. getAllEntries (sync_read env') (snd (syncData env s)) = Inr es \<longrightarrow>
             take (Suc (length (network (snd (syncData env s)))))
                  (network (snd (syncData env' (snd (syncData env s))))) =
             network (snd (syncData env s)) @
               [(appsScriptUrl (settings s), SyncBatch (build_payload es s))])"
proof -
  let ?s' = "snd (syncData env s)"
  have run: "syncData env s =
     (None,
      s\<lparr>currentStatus_text := SyncErrorText e,
        currentStatus_className := js ''error'',
        syncDataButton_disabled := False,
        network := network s @ [(appsScriptUrl (settings s), SyncBatch (build_payload es s))],
        console := console s @ [ConsoleError e]\<rparr>)"
    by (rule syncData_accepted_clear_rejects [OF assms])
  have recs: "records (indexedDB s) = es"
    using getAllEntries_records [OF read] by simp
  have same: "settings ?s' = settings s" "build_payload es ?s' = build_payload es s"
    by (simp_all add: run build_payload_def)
  have again: "take (Suc (length (network ?s'))) (network (snd (syncData env' ?s'))) =
                 network ?s' @ [(appsScriptUrl (settings s), SyncBatch (build_payload es s))]"
    if "getAllEntries (sync_read env') ?s' = Inr es" for env'
    using syncData_first_request [OF that ne] by (simp add: same)
  have first: "fst (syncData env s) = None
       \<and> currentStatus_text ?s' = SyncErrorText e
       \<and> currentStatus_className ?s' = js ''error''
       \<and> localStorage ?s' = localStorage s
       \<and> indexedDB ?s' = indexedDB s
       \<and> records (indexedDB ?s') = es
       \<and> network ?s' = network s @ [(appsScriptUrl (settings s), SyncBatch (build_payload es s))]"
    by (simp add: run recs)
  from first again show ?thesis by blast
qed

theorem syncData_clear_failure_resubmits_witness:
  "getAllEntries (sync_read (example_sync_env\<lparr>sync_clear := idb_rejects\<rparr>)) example_state =
      Inr example_records
   \<and> example_records \<noteq> []
   \<and> sync_fetch (example_sync_env\<lparr>sync_clear := idb_rejects\<rparr>) = Inr example_accepting
   \<and> response_ok example_accepting
   \<and> response_json example_accepting = JsonValue (JSNumber 200) (JSString (js ''ok''))
   \<and> fst (clearEntries (sync_clear (example_sync_env\<lparr>sync_clear := idb_rejects\<rparr>))
        example_state) = Inl (ErrorObject (js ''QuotaExceededError''))
   \<and> currentStatus_text (snd (syncData (example_sync_env\<lparr>sync_clear := idb_rejects\<rparr>)
        example_state)) = SyncErrorText (ErrorObject (js ''QuotaExceededError''))
   \<and> records (indexedDB (snd (syncData (example_sync_env\<lparr>sync_clear := idb_rejects\<rparr>)
        example_state))) = example_records
   \<and> localStorage (snd (syncData (example_sync_env\<lparr>sync_clear := idb_rejects\<rparr>)
        example_state)) = localStorage example_state
   \<and> getAllEntries (sync_read example_sync_env)
        (snd (syncData (example_sync_env\<lparr>sync_clear := idb_rejects\<rparr>) example_state)) =
      Inr example_records
   \<and> take 2 (network (snd (syncData example_sync_env
        (snd (syncData (example_sync_env\<lparr>sync_clear := idb_rejects\<rparr>) example_state))))) =
      [(appsScriptUrl (settings example_state),
        SyncBatch (build_payload example_records example_state)),
       (appsScriptUrl (settings example_state),
        SyncBatch (build_payload example_records example_state))]"
proof -
  let ?E = "example_sync_env\<lparr>sync_clear := idb_rejects\<rparr>"
  have r: "getAllEntries (sync_read ?E) example_state = Inr example_records"
    by (simp add: getAllEntries_def openDB_def example_state_def example_sync_env_def
          idb_resolves_def)
  have ne: "example_records \<noteq> []"
    by (simp add: example_records_def)
  have f: "sync_fetch ?E = Inr example_accepting"
    by (simp add: example_sync_env_def)
  have ok: "response_ok example_accepting"
    by (simp add: example_accepting_def)
  have b: "response_json example_accepting = JsonValue (JSNumber 200) (JSString (js ''ok''))"
    by (simp add: example_accepting_def)
  have c: "fst (clearEntries (sync_clear ?E) example_state) =
             Inl (ErrorObject (js ''QuotaExceededError''))"
    by (simp add: clearEntries_def openDB_def idb_rejects_def)
  note res = syncData_clear_failure_resubmits [OF r ne f ok b c]
  have db: "indexedDB (snd (syncData ?E example_state)) = indexedDB example_state"
    using res by blast
  have rd: "sync_read example_sync_env = idb_resolves"
    by (simp add: example_sync_env_def)
  have recs: "records (indexedDB example_state) = example_records"
    by (simp add: example_state_def)
  have r': "getAllEntries (sync_read example_sync_env) (snd (syncData ?E example_state)) =
              Inr example_records"
    by (simp add: getAllEntries_def openDB_def db recs rd idb_resolves_def)
  have net: "network (snd (syncData ?E example_state)) =
               [(appsScriptUrl (settings example_state),
                 SyncBatch (build_payload example_records example_state))]"
    using res by (simp add: example_state_def)
  have again: "take (Suc (length (network (snd (syncData ?E example_state)))))
                 (network (snd (syncData example_sync_env (snd (syncData ?E example_state))))) =
               network (snd (syncData ?E example_state)) @
                 [(appsScriptUrl (settings example_state),
                   SyncBatch (build_payload example_records example_state))]"
    using res r' by blast
  have two: "Suc (length (network (snd (syncData ?E example_state)))) = 2"
    by (simp add: net)
  from again have tk: "take 2 (network (snd (syncData example_sync_env
        (snd (syncData ?E example_state))))) =
      [(appsScriptUrl (settings example_state),
        SyncBatch (build_payload example_records example_state)),
       (appsScriptUrl (settings example_state),
        SyncBatch (build_payload example_records example_state))]"
    unfolding two by (simp add: net)
  from res have t: "currentStatus_text (snd (syncData ?E example_state)) =
                      SyncErrorText (ErrorObject (js ''QuotaExceededError''))"
    and rc: "records (indexedDB (snd (syncData ?E example_state))) = example_records"
    and ls: "localStorage (snd (syncData ?E example_state)) = localStorage example_state"
    by blast+
  show ?thesis
    by (intro conjI r ne f ok b c t rc ls r' tk)
qed

end
